theory Spec2Isabelle
  imports Main
begin

section \<open>C strings and the library calls of ssh-copy-id.c\<close>

text \<open>
  A C string is a \<open>string\<close> (a list of bytes) without its terminating NUL. Buffers filled
  by \<open>fread\<close> may hold NUL bytes; \<open>cstr\<close> is the view the string functions of C have of
  such a buffer. The characters that cannot be written inside an Isabelle string literal
  are named here.
\<close>

abbreviation NUL :: char where "NUL \<equiv> CHR 0x00"
abbreviation TAB :: char where "TAB \<equiv> CHR 0x09"
abbreviation LF :: char where "LF \<equiv> CHR 0x0A"
abbreviation CR :: char where "CR \<equiv> CHR 0x0D"
abbreviation DQ :: char where "DQ \<equiv> CHR 0x22"
abbreviation SQ :: char where "SQ \<equiv> CHR 0x27"
abbreviation BSL :: char where "BSL \<equiv> CHR 0x5C"

definition MAX_PATH_LEN :: nat where "MAX_PATH_LEN = 4096"
definition MAX_CMD_LEN :: nat where "MAX_CMD_LEN = 8192"
definition MAX_KEY_SIZE :: nat where "MAX_KEY_SIZE = 65536"

definition cstr :: "string \<Rightarrow> string" where
  "cstr buf = takeWhile (\<lambda>c. c \<noteq> NUL) buf"

text \<open>\<open>strchr s c\<close>: the offset of the first \<open>c\<close> in \<open>s\<close>, \<open>None\<close> for the null pointer.\<close>

fun strchr :: "string \<Rightarrow> char \<Rightarrow> nat option" where
  "strchr [] c = None"
| "strchr (x # xs) c = (if x = c then Some 0 else map_option Suc (strchr xs c))"

fun starts_with :: "string \<Rightarrow> string \<Rightarrow> bool" where
  "starts_with [] s = True"
| "starts_with (n # ns) [] = False"
| "starts_with (n # ns) (x # xs) = (n = x \<and> starts_with ns xs)"

text \<open>\<open>strstr hay needle\<close>: the offset of the first occurrence of \<open>needle\<close> in \<open>hay\<close>.\<close>

fun strstr :: "string \<Rightarrow> string \<Rightarrow> nat option" where
  "strstr [] needle = (if needle = [] then Some 0 else None)"
| "strstr (h # hs) needle =
     (if starts_with needle (h # hs) then Some 0 else map_option Suc (strstr hs needle))"

text \<open>
  \<open>snprintf (buf, size, ...)\<close> keeps at most \<open>size - 1\<close> characters of the formatted text,
  and so does \<open>strncpy (dst, src, size - 1)\<close> followed by \<open>dst[size - 1] = 0\<close>.
\<close>

definition snprintf :: "nat \<Rightarrow> string \<Rightarrow> string" where
  "snprintf bufsize text = take (bufsize - 1) text"

text \<open>The \<open>%d\<close> conversion of \<open>printf\<close>.\<close>

fun show_nat :: "nat \<Rightarrow> string" where
  "show_nat n =
     (if n < 10 then [''0123456789'' ! n]
      else show_nat (n div 10) @ [''0123456789'' ! (n mod 10)])"

definition show_int :: "int \<Rightarrow> string" where
  "show_int i = (if i < 0 then CHR ''-'' # show_nat (nat (- i)) else show_nat (nat i))"

text \<open>
  \<open>atoi\<close> reads leading white space, an optional sign, then decimal digits up to the
  first other character; \<open>atoi_value\<close> is the number so written.
\<close>

definition is_digit :: "char \<Rightarrow> bool" where
  "is_digit c = (c \<in> set ''0123456789'')"

definition isspace :: "char \<Rightarrow> bool" where
  "isspace c = (c = CHR '' '' \<or> c = TAB \<or> c = LF \<or> c = CHR 0x0B \<or> c = CHR 0x0C \<or> c = CR)"

fun atoi_digits :: "int \<Rightarrow> string \<Rightarrow> int" where
  "atoi_digits acc [] = acc"
| "atoi_digits acc (c # cs) =
     (if is_digit c then atoi_digits (acc * 10 + (of_char c - 48)) cs else acc)"

definition atoi_value :: "string \<Rightarrow> int" where
  "atoi_value s =
     (case dropWhile isspace s of
        [] \<Rightarrow> 0
      | c # cs \<Rightarrow>
          if c = CHR ''-'' then - atoi_digits 0 cs
          else if c = CHR ''+'' then atoi_digits 0 cs
          else atoi_digits 0 (c # cs))"

section \<open>The options structure\<close>

record Options =
  user :: string
  host :: string
  port :: int
  identity_file :: string
  key_file :: string
  force :: bool
  dry_run :: bool
  quiet :: bool
  ssh_options :: string
  ssh_config :: string

section \<open>The process and what surrounds it\<close>

text \<open>
  Everything the program asks of its surroundings is a field of the environment: the two
  environment variables it reads, \<open>fopen\<close> for reading (the bytes \<open>fread\<close> then delivers,
  \<open>None\<close> when the file cannot be opened), \<open>stat\<close>, and the two ways it starts a
  subprocess, and what \<open>atoi\<close> returns for a number that does not fit an \<open>int\<close> of
  32 bits, which C leaves undefined. \<open>run_system\<close> is \<open>system\<close>: from the command line and the state of the
  outside world (of any type \<open>'h\<close>: the remote host, the network) to the exit status and
  the new outside state. \<open>run_popen\<close> is \<open>_popen\<close> in read mode followed by \<open>fread\<close> and
  \<open>_pclose\<close>: \<open>None\<close> when no pipe could be opened, else the bytes the command printed.
\<close>

record 'h env =
  getenv_USERPROFILE :: "string option"
  getenv_USERNAME :: "string option"
  fopen_r :: "string \<Rightarrow> string option"
  stat_ok :: "string \<Rightarrow> bool"
  run_system :: "string \<Rightarrow> 'h \<Rightarrow> int \<times> 'h"
  run_popen :: "string \<Rightarrow> 'h \<Rightarrow> string option \<times> 'h"
  atoi_out_of_range :: "string \<Rightarrow> int"

definition atoi :: "'h env \<Rightarrow> string \<Rightarrow> int" where
  "atoi E s =
     (if - (2 ^ 31) \<le> atoi_value s \<and> atoi_value s < 2 ^ 31 then atoi_value s
      else atoi_out_of_range E s)"

datatype stream = Stdout | Stderr

text \<open>
  The state of one run: the outside world, what has been printed so far (one entry per
  \<open>printf\<close> or \<open>fprintf\<close> call, in order) and the command lines handed to \<open>system\<close> and
  \<open>_popen\<close> so far, in order.
\<close>

record 'h pstate =
  outside :: 'h
  printed :: "(stream \<times> string) list"
  cmds :: "string list"

definition start :: "'h \<Rightarrow> 'h pstate" where
  "start h = \<lparr>outside = h, printed = [], cmds = []\<rparr>"

definition printf :: "string \<Rightarrow> 'h pstate \<Rightarrow> 'h pstate" where
  "printf text s = s\<lparr>printed := printed s @ [(Stdout, text)]\<rparr>"

definition eprintf :: "string \<Rightarrow> 'h pstate \<Rightarrow> 'h pstate" where
  "eprintf text s = s\<lparr>printed := printed s @ [(Stderr, text)]\<rparr>"

definition system :: "'h env \<Rightarrow> string \<Rightarrow> 'h pstate \<Rightarrow> int \<times> 'h pstate" where
  "system E cmd s =
     (case run_system E cmd (outside s) of
        (rc, h) \<Rightarrow> (rc, s\<lparr>outside := h, cmds := cmds s @ [cmd]\<rparr>))"

definition popen_read :: "'h env \<Rightarrow> string \<Rightarrow> 'h pstate \<Rightarrow> string option \<times> 'h pstate" where
  "popen_read E cmd s =
     (case run_popen E cmd (outside s) of
        (r, h) \<Rightarrow> (r, s\<lparr>outside := h, cmds := cmds s @ [cmd]\<rparr>))"

definition stdout_of :: "'h pstate \<Rightarrow> string list" where
  "stdout_of s = map snd (filter (\<lambda>e. fst e = Stdout) (printed s))"

definition stderr_of :: "'h pstate \<Rightarrow> string list" where
  "stderr_of s = map snd (filter (\<lambda>e. fst e = Stderr) (printed s))"

section \<open>The functions of ssh-copy-id.c\<close>

definition get_home_dir :: "'h env \<Rightarrow> string option" where
  "get_home_dir E = map_option (take (MAX_PATH_LEN - 1)) (getenv_USERPROFILE E)"

definition file_exists :: "'h env \<Rightarrow> string \<Rightarrow> bool" where
  "file_exists E path = stat_ok E path"

definition is_blank :: "char \<Rightarrow> bool" where
  "is_blank c = (c = CHR '' '' \<or> c = TAB \<or> c = LF \<or> c = CR)"

text \<open>
  The second loop of \<open>trim_string\<close> walks \<open>end\<close> down from the last character while
  \<open>end > start\<close>; \<open>trim_end\<close> is that loop on the reversed string.
\<close>

fun trim_end :: "string \<Rightarrow> string" where
  "trim_end (c # d # cs) = (if is_blank c then trim_end (d # cs) else c # d # cs)"
| "trim_end cs = cs"

definition trim_string :: "string \<Rightarrow> string" where
  "trim_string str =
     (let first = dropWhile is_blank str
      in if first = [] then [] else rev (trim_end (rev first)))"

definition print_help :: "string \<Rightarrow> 'h pstate \<Rightarrow> 'h pstate" where
  "print_help prog_name s =
     foldl (\<lambda>s line. printf line s) s
       [''Usage: '' @ prog_name @ '' [options] [user@]host'' @ [LF, LF],
        ''Copy your public SSH key to a remote server'' @ [LF, LF],
        ''Options:'' @ [LF],
        ''  -i, --identity_file <file>   Use this public key (default: ~/.ssh/id_rsa.pub)'' @ [LF],
        ''  -p, --port <port>            SSH port (default: 22)'' @ [LF],
        ''  -f, --force                  Don'' @ [SQ] @ ''t check for existing keys'' @ [LF],
        ''  -n, --dry_run                Show what would be done, but don'' @ [SQ] @ ''t execute'' @ [LF],
        ''  -q, --quiet                  Quiet mode'' @ [LF],
        ''  -o, --ssh_options <options>  Additional SSH options'' @ [LF],
        ''  -F, --ssh_config <file>      SSH configuration file'' @ [LF],
        ''  -h, --help                   Show this help message'' @ [LF, LF],
        ''Examples:'' @ [LF],
        ''  '' @ prog_name @ '' user@example.com'' @ [LF],
        ''  '' @ prog_name @ '' -i ~/.ssh/id_ed25519.pub user@192.168.1.100'' @ [LF],
        ''  '' @ prog_name @ '' -p 2222 -f root@server.local'' @ [LF]]"

text \<open>
  \<open>parse_target\<close>: \<open>user\<close> and \<open>host\<close> are arrays of 256 characters, so each part is cut
  to 255 characters.
\<close>

definition parse_target :: "'h env \<Rightarrow> string \<Rightarrow> Options \<Rightarrow> Options" where
  "parse_target E target opts =
     (case strchr target (CHR ''@'') of
        Some at_sign \<Rightarrow>
          (let user_len = (if at_sign \<ge> 256 then 255 else at_sign)
           in opts\<lparr>user := take user_len target,
                   host := take 255 (drop (at_sign + 1) target)\<rparr>)
      | None \<Rightarrow>
          opts\<lparr>user := (case getenv_USERNAME E of
                            Some username \<Rightarrow> take 255 username
                          | None \<Rightarrow> ''user''),
               host := take 255 target\<rparr>)"

text \<open>
  \<open>get_public_key_path\<close>, with \<open>key_path_size = MAX_PATH_LEN\<close> as at both call sites.
  \<open>strncat (key_path, ".pub", n)\<close> appends at most \<open>n\<close> characters.
\<close>

definition get_public_key_path :: "'h env \<Rightarrow> Options \<Rightarrow> string" where
  "get_public_key_path E opts =
     (let home_dir = get_home_dir E;
          key_path =
            (if key_file opts \<noteq> [] then take (MAX_PATH_LEN - 1) (key_file opts)
             else if identity_file opts \<noteq> [] then
               (let kp = take (MAX_PATH_LEN - 1) (identity_file opts)
                in if strstr kp ''.pub'' = None
                   then kp @ take (MAX_PATH_LEN - length kp - 1) ''.pub''
                   else kp)
             else snprintf MAX_PATH_LEN
                    ((case home_dir of Some h \<Rightarrow> h | None \<Rightarrow> ''.'')
                     @ [BSL] @ ''.ssh'' @ [BSL] @ ''id_rsa.pub''))
      in case key_path of
           c # rest \<Rightarrow>
             if c = CHR ''~'' then
               (let full_path = snprintf MAX_PATH_LEN
                      ((case home_dir of Some h \<Rightarrow> h | None \<Rightarrow> []) @ rest)
                in take (MAX_PATH_LEN - 1) full_path)
             else key_path
         | [] \<Rightarrow> key_path)"

text \<open>
  \<open>read_public_key\<close>: \<open>None\<close> is the return value -1, \<open>Some key\<close> is 0 with the trimmed
  content left in \<open>key_content\<close> (a buffer of \<open>MAX_KEY_SIZE\<close> bytes).
\<close>

definition read_public_key :: "'h env \<Rightarrow> string \<Rightarrow> string option" where
  "read_public_key E key_path =
     (case fopen_r E key_path of
        None \<Rightarrow> None
      | Some content \<Rightarrow>
          (let bytes = take (MAX_KEY_SIZE - 1) content
           in if length bytes = 0 then None else Some (trim_string (cstr bytes))))"

definition where_cmd :: string where
  "where_cmd = snprintf MAX_CMD_LEN ''where ssh >nul 2>&1''"

definition check_ssh_installed :: "'h env \<Rightarrow> 'h pstate \<Rightarrow> bool \<times> 'h pstate" where
  "check_ssh_installed E s =
     (case system E where_cmd s of
        (rc, s') \<Rightarrow> (rc = 0, s'))"

definition port_str :: "Options \<Rightarrow> string" where
  "port_str opts =
     (if port opts > 0 \<and> port opts \<noteq> 22
      then snprintf 32 (''-p '' @ show_int (port opts) @ '' '') else [])"

definition config_str :: "Options \<Rightarrow> string" where
  "config_str opts =
     (if ssh_config opts \<noteq> []
      then snprintf MAX_CMD_LEN (''-F '' @ [DQ] @ ssh_config opts @ [DQ] @ '' '') else [])"

definition opts_str :: "Options \<Rightarrow> string" where
  "opts_str opts =
     (if ssh_options opts \<noteq> []
      then snprintf 256 (''-o '' @ ssh_options opts @ '' '') else [])"

text \<open>\<open>ssh_cmd\<close> is the command line \<open>run_ssh_command\<close> builds in \<open>cmd\<close>.\<close>

definition ssh_cmd :: "Options \<Rightarrow> string \<Rightarrow> string" where
  "ssh_cmd opts remote_cmd =
     snprintf MAX_CMD_LEN
       (''ssh '' @ config_str opts @ port_str opts @ opts_str opts
        @ ''-o StrictHostKeyChecking=accept-new '' @ user opts @ ''@'' @ host opts
        @ '' '' @ [DQ] @ remote_cmd @ [DQ])"

definition run_ssh_command :: "'h env \<Rightarrow> Options \<Rightarrow> string \<Rightarrow> 'h pstate \<Rightarrow> int \<times> 'h pstate" where
  "run_ssh_command E opts remote_cmd s = system E (ssh_cmd opts remote_cmd) s"

text \<open>
  The escaping loop at the head of \<open>copy_key_to_server\<close>. \<open>remaining\<close> is the local
  variable of that name; the result is what the loop has written to \<open>escaped_key\<close>.
\<close>

fun escape_loop :: "nat \<Rightarrow> string \<Rightarrow> string" where
  "escape_loop remaining [] = []"
| "escape_loop remaining (c # src) =
     (if remaining > 1 then
        (if c = SQ then
           (if remaining \<ge> 5 then [SQ, BSL, SQ, SQ] @ escape_loop (remaining - 4) src
            else escape_loop remaining src)
         else c # escape_loop (remaining - 1) src)
      else [])"

definition escape_key :: "string \<Rightarrow> string" where
  "escape_key key_content = escape_loop (MAX_KEY_SIZE - 1) key_content"

text \<open>The three command lines \<open>copy_key_to_server\<close> builds.\<close>

definition mkdir_cmd :: "Options \<Rightarrow> string" where
  "mkdir_cmd opts =
     snprintf MAX_CMD_LEN
       (''ssh '' @ config_str opts @ port_str opts @ user opts @ ''@'' @ host opts @ '' ''
        @ [DQ] @ ''mkdir -p ~/.ssh && chmod 700 ~/.ssh'' @ [DQ])"

definition append_cmd :: "Options \<Rightarrow> string \<Rightarrow> string" where
  "append_cmd opts key_content =
     snprintf MAX_CMD_LEN
       (''ssh '' @ config_str opts @ port_str opts @ user opts @ ''@'' @ host opts @ '' ''
        @ [DQ] @ ''echo '' @ [SQ] @ escape_key key_content @ [SQ]
        @ '' >> ~/.ssh/authorized_keys && chmod 600 ~/.ssh/authorized_keys'' @ [DQ])"

definition check_cmd :: "Options \<Rightarrow> string" where
  "check_cmd opts =
     snprintf MAX_CMD_LEN
       (''ssh '' @ config_str opts @ port_str opts @ user opts @ ''@'' @ host opts @ '' ''
        @ [DQ] @ ''cat ~/.ssh/authorized_keys 2>/dev/null'' @ [DQ])"

text \<open>
  \<open>add_key\<close> is the block that both branches of \<open>copy_key_to_server\<close> end with: the
  progress message, the append command line, and \<open>return system (cmd)\<close>.
\<close>

definition add_key :: "'h env \<Rightarrow> Options \<Rightarrow> string \<Rightarrow> 'h pstate \<Rightarrow> int \<times> 'h pstate" where
  "add_key E opts key_content s =
     system E (append_cmd opts key_content)
       (printf (''Adding key to authorized_keys...'' @ [LF]) s)"

definition copy_key_to_server :: "'h env \<Rightarrow> Options \<Rightarrow> string \<Rightarrow> 'h pstate \<Rightarrow> int \<times> 'h pstate" where
  "copy_key_to_server E opts key_content s =
     (let s1 = printf (''Creating ~/.ssh directory...'' @ [LF]) s;
          s2 = snd (system E (mkdir_cmd opts) s1)
      in if force opts then add_key E opts key_content s2
         else
           (case popen_read E (check_cmd opts) s2 of
              (None, s3) \<Rightarrow> add_key E opts key_content s3
            | (Some piped, s3) \<Rightarrow>
                (let existing_keys = cstr (take (MAX_KEY_SIZE - 1) piped)
                 in if strstr existing_keys key_content \<noteq> None
                    then (0, printf (''Key already exists on server'' @ [LF]) s3)
                    else add_key E opts key_content s3)))"

text \<open>
  \<open>strip_pub\<close> is the idiom used twice in the source to get the private key's path:
  \<open>pub_pos = strstr (private_key, ".pub"); if (pub_pos) *pub_pos = 0\<close>.
\<close>

definition strip_pub :: "string \<Rightarrow> string" where
  "strip_pub path = (case strstr path ''.pub'' of Some pub_pos \<Rightarrow> take pub_pos path | None \<Rightarrow> path)"

definition test_connection :: "'h env \<Rightarrow> Options \<Rightarrow> 'h pstate \<Rightarrow> int \<times> 'h pstate" where
  "test_connection E opts s =
     (let private_key = strip_pub (get_public_key_path E opts);
          s1 = printf (''Testing connection with key...'' @ [LF]) s
      in system E
           (snprintf MAX_CMD_LEN
              (''ssh '' @ config_str opts @ port_str opts @ ''-i '' @ [DQ] @ private_key @ [DQ]
               @ '' -o BatchMode=yes '' @ user opts @ ''@'' @ host opts @ '' ''
               @ [DQ] @ ''exit 0'' @ [DQ])) s1)"


text \<open>
  \<open>parse_args\<close>. A call of \<open>exit\<close> ends the process with that code; otherwise the function
  returns its \<open>int\<close> and leaves the options in \<open>opts\<close>. \<open>parse_loop\<close> is the \<open>for\<close> loop over
  \<open>argv[1] ...\<close> together with the check that follows it; an option whose value is missing
  (\<open>i + 1 < argc\<close> fails) is skipped, and the loop ends there.
\<close>

datatype 'a ctl = Exit int | Return 'a

definition zeroed_options :: Options where
  "zeroed_options =
     \<lparr>user = [], host = [], port = 0, identity_file = [], key_file = [], force = False,
      dry_run = False, quiet = False, ssh_options = [], ssh_config = []\<rparr>"

function parse_loop ::
  "'h env \<Rightarrow> string \<Rightarrow> string list \<Rightarrow> Options \<Rightarrow> bool \<Rightarrow> 'h pstate
     \<Rightarrow> (int \<times> Options) ctl \<times> 'h pstate" where
  "parse_loop E prog [] opts target_found s =
     (if \<not> target_found \<and> host opts = [] then
        (Return (- 1, opts),
         print_help prog
           (eprintf (''No host specified. Usage: '' @ prog @ '' user@host'' @ [LF]) s))
      else (Return (0, opts), s))"
| "parse_loop E prog (arg # rest) opts target_found s =
     (if arg = ''-h'' \<or> arg = ''--help'' then (Exit 0, print_help prog s)
      else if arg = ''-i'' \<or> arg = ''--identity_file'' then
        parse_loop E prog (tl rest)
          (case rest of [] \<Rightarrow> opts | v # _ \<Rightarrow> opts\<lparr>identity_file := take (MAX_PATH_LEN - 1) v\<rparr>)
          target_found s
      else if arg = ''-p'' \<or> arg = ''--port'' then
        parse_loop E prog (tl rest)
          (case rest of [] \<Rightarrow> opts | v # _ \<Rightarrow> opts\<lparr>port := atoi E v\<rparr>)
          target_found s
      else if arg = ''-f'' \<or> arg = ''--force'' then
        parse_loop E prog rest (opts\<lparr>force := True\<rparr>) target_found s
      else if arg = ''-n'' \<or> arg = ''--dry_run'' then
        parse_loop E prog rest (opts\<lparr>dry_run := True\<rparr>) target_found s
      else if arg = ''-q'' \<or> arg = ''--quiet'' then
        parse_loop E prog rest (opts\<lparr>quiet := True\<rparr>) target_found s
      else if arg = ''-o'' \<or> arg = ''--ssh_options'' then
        parse_loop E prog (tl rest)
          (case rest of [] \<Rightarrow> opts | v # _ \<Rightarrow> opts\<lparr>ssh_options := take 1023 v\<rparr>)
          target_found s
      else if arg = ''-F'' \<or> arg = ''--ssh_config'' then
        parse_loop E prog (tl rest)
          (case rest of [] \<Rightarrow> opts | v # _ \<Rightarrow> opts\<lparr>ssh_config := take (MAX_PATH_LEN - 1) v\<rparr>)
          target_found s
      else if take 1 arg \<noteq> ''-'' \<and> \<not> target_found then
        parse_loop E prog rest (parse_target E arg opts) True s
      else
        (Return (- 1, opts),
         print_help prog (eprintf (''Unknown option: '' @ arg @ [LF]) s)))"
  by pat_completeness auto
termination
  by (relation "measure (\<lambda>(E, prog, args, opts, target_found, s). length args)") simp_all

definition parse_args ::
  "'h env \<Rightarrow> string \<Rightarrow> string list \<Rightarrow> 'h pstate \<Rightarrow> (int \<times> Options) ctl \<times> 'h pstate" where
  "parse_args E prog args s = parse_loop E prog args (zeroed_options\<lparr>port := 22\<rparr>) False s"

text \<open>
  Three blocks of \<open>main\<close>: what it prints before it starts unless the quiet option is
  set, what it prints when the public key cannot be read, and what it does once the key
  has been copied (the check of the connection with the key, unless the quiet option is
  set). (\<open>key_path\<close> is never longer than \<open>MAX_PATH_LEN - 1\<close>, so the \<open>strncpy\<close> into
  \<open>private_key\<close> copies all of it.)
\<close>

definition announce :: "Options \<Rightarrow> string \<Rightarrow> 'h pstate \<Rightarrow> 'h pstate" where
  "announce opts key_path s =
     (if \<not> quiet opts then
        printf [LF]
          ((if port opts > 0 \<and> port opts \<noteq> 22
            then printf ('':'' @ show_int (port opts)) else id)
             (printf (''To server: '' @ user opts @ ''@'' @ host opts)
                (printf (''Copying key: '' @ key_path @ [LF]) s)))
      else s)"

definition report_missing_key :: "'h env \<Rightarrow> string \<Rightarrow> 'h pstate \<Rightarrow> 'h pstate" where
  "report_missing_key E key_path s =
     (let s' = eprintf (''Public key not found: '' @ key_path @ [LF]) s;
          private_key = strip_pub (take (MAX_PATH_LEN - 1) key_path)
      in if file_exists E private_key then
           eprintf (''Generate public key: ssh-keygen -y -f '' @ private_key @ '' > ''
                    @ key_path @ [LF])
             (eprintf (''Private key found: '' @ private_key @ [LF]) s')
         else s')"

definition report_copied :: "'h env \<Rightarrow> Options \<Rightarrow> 'h pstate \<Rightarrow> 'h pstate" where
  "report_copied E opts s =
     (if \<not> quiet opts then
        (case test_connection E opts (printf (''Key copied successfully!'' @ [LF]) s) of
           (tc, s') \<Rightarrow>
             if tc = 0 then printf (''Connection with key works!'' @ [LF]) s'
             else printf (''Connection with key failed.'' @ [LF]) s')
      else s)"

text \<open>
  \<open>main\<close>, with \<open>argv[0]\<close> as \<open>prog\<close> and \<open>argv[1] ...\<close> as \<open>args\<close>; the result is the exit code
  of the process.
\<close>

definition main :: "'h env \<Rightarrow> string \<Rightarrow> string list \<Rightarrow> 'h pstate \<Rightarrow> int \<times> 'h pstate" where
  "main E prog args s0 =
     (case parse_args E prog args s0 of
        (Exit code, s1) \<Rightarrow> (code, s1)
      | (Return (rc, opts), s1) \<Rightarrow>
          if rc \<noteq> 0 then (1, s1)
          else
            (case check_ssh_installed E s1 of
               (installed, s2) \<Rightarrow>
                 if \<not> installed then
                   (1, eprintf (''SSH client not found. Please install OpenSSH for Windows.''
                               @ [LF]) s2)
                 else
                   (let key_path = get_public_key_path E opts;
                        s3 = announce opts key_path s2
                    in if dry_run opts then
                         (0, printf (''[DRY RUN] Key would be added to ~/.ssh/authorized_keys''
                                     @ [LF]) s3)
                       else
                         (case read_public_key E key_path of
                            None \<Rightarrow> (1, report_missing_key E key_path s3)
                          | Some key_content \<Rightarrow>
                              (let s4 = (if \<not> quiet opts
                                         then printf (''Testing connection...'' @ [LF]) s3
                                         else s3)
                               in case run_ssh_command E opts ''exit 0'' s4 of
                                    (result, s5) \<Rightarrow>
                                      if result \<noteq> 0 then
                                        (1, eprintf (''Failed to connect to server. ''
                                                     @ ''Check login credentials.'' @ [LF]) s5)
                                      else
                                        (case copy_key_to_server E opts key_content s5 of
                                           (result, s6) \<Rightarrow>
                                             if result = 0 then (0, report_copied E opts s6)
                                             else
                                               (1, eprintf (''Error copying key'' @ [LF]) s6)))))))"

section \<open>What the claims compare the code with\<close>

text \<open>
  The escaping as the specification words it: each single quote is replaced by the four
  characters that close the quoted string, insert an escaped quote and reopen quoting;
  every other character stays.
\<close>

definition spec_escape :: "string \<Rightarrow> string" where
  "spec_escape key = concat (map (\<lambda>c. if c = SQ then [SQ, BSL, SQ, SQ] else [c]) key)"





section \<open>Scripted environments\<close>

text \<open>
  Environments to run the program in, in the way of the design notes of the
  specification: a stand-in for the outside world that answers from a script.
  \<open>null_env\<close> has no environment variables, no files and no command that succeeds.
  (In all of them \<open>atoi\<close> gives 0 for a number that is out of range.)
\<close>

definition null_env :: "unit env" where
  "null_env =
     \<lparr>getenv_USERPROFILE = None, getenv_USERNAME = None, fopen_r = (\<lambda>path. None),
      stat_ok = (\<lambda>path. False), run_system = (\<lambda>cmd h. (1, h)),
      run_popen = (\<lambda>cmd h. (None, h)), atoi_out_of_range = (\<lambda>s. 0)\<rparr>"

text \<open>
  \<open>scripted_env\<close> answers from a script, whatever the state of the outside world: the two
  environment variables, the files that can be opened and their content, the paths that
  exist, the exit status of each command line, and what a command read through a pipe
  prints.
\<close>

definition scripted_env ::
  "string option \<Rightarrow> string option \<Rightarrow> (string \<Rightarrow> string option) \<Rightarrow> (string \<Rightarrow> bool)
     \<Rightarrow> (string \<Rightarrow> int) \<Rightarrow> string option \<Rightarrow> unit env" where
  "scripted_env profile username files present status piped =
     \<lparr>getenv_USERPROFILE = profile, getenv_USERNAME = username, fopen_r = files,
      stat_ok = present, run_system = (\<lambda>cmd h. (status cmd, h)),
      run_popen = (\<lambda>cmd h. (piped, h)), atoi_out_of_range = (\<lambda>s. 0)\<rparr>"

text \<open>
  A Windows machine of user \<open>bob\<close> whose public key is in the default place, and the
  options \<open>parse_args\<close> leaves for the target \<open>bob@box\<close>.
\<close>

definition bob_key :: string where
  "bob_key = ''ssh-ed25519 AAAAC3NzaC1lZDI1NTE5 bob@pc''"

definition bob_home :: string where
  "bob_home = ''C:'' @ [BSL] @ ''Users'' @ [BSL] @ ''bob''"

definition bob_pub :: string where
  "bob_pub = bob_home @ [BSL] @ ''.ssh'' @ [BSL] @ ''id_rsa.pub''"

definition bob_pc :: "(string \<Rightarrow> int) \<Rightarrow> string option \<Rightarrow> unit env" where
  "bob_pc status piped =
     scripted_env (Some bob_home) (Some ''bob'')
       (\<lambda>path. if path = bob_pub then Some (bob_key @ [LF]) else None)
       (\<lambda>path. path = bob_pub) status piped"

definition bob_options :: Options where
  "bob_options = zeroed_options\<lparr>port := 22, user := ''bob'', host := ''box''\<rparr>"

text \<open>The same machine without the public key file, the private key being there.\<close>

definition bob_pc_no_pub :: "(string \<Rightarrow> int) \<Rightarrow> unit env" where
  "bob_pc_no_pub status =
     scripted_env (Some bob_home) (Some ''bob'') (\<lambda>path. None)
       (\<lambda>path. path = bob_home @ [BSL] @ ''.ssh'' @ [BSL] @ ''id_rsa'') status None"

text \<open>The machine of \<open>bob\<close> with a public key file that holds white space only.\<close>

definition bob_pc_blank_key :: "(string \<Rightarrow> int) \<Rightarrow> string option \<Rightarrow> unit env" where
  "bob_pc_blank_key status piped =
     scripted_env (Some bob_home) (Some ''bob'')
       (\<lambda>path. if path = bob_pub then Some ('' '' @ [LF]) else None)
       (\<lambda>path. path = bob_pub) status piped"

text \<open>
  \<open>remote_env\<close> is a remote host that does what the two commands say. The state of the
  outside world is the content of the remote authorized-keys file: the listing command
  prints it, the adding command appends the line and succeeds, and every other command
  succeeds and changes nothing.
\<close>

definition remote_env :: "string \<Rightarrow> string \<Rightarrow> string \<Rightarrow> string env" where
  "remote_env listing_cmd adding_cmd line =
     \<lparr>getenv_USERPROFILE = None, getenv_USERNAME = None, fopen_r = (\<lambda>path. None),
      stat_ok = (\<lambda>path. False),
      run_system = (\<lambda>cmd keys. if cmd = adding_cmd then (0, keys @ line @ [LF]) else (0, keys)),
      run_popen = (\<lambda>cmd keys. if cmd = listing_cmd then (Some keys, keys) else (Some [], keys)),
      atoi_out_of_range = (\<lambda>s. 0)\<rparr>"

text \<open>The host \<open>box\<close>, to which \<open>bob\<close> sends his key.\<close>

definition box_env :: "string env" where
  "box_env = remote_env (check_cmd bob_options) (append_cmd bob_options bob_key) bob_key"

section \<open>Facts about the string functions\<close>

lemma strchr_None: "strchr s c = None \<longleftrightarrow> c \<notin> set s"
  by (induction s) auto

lemma strchr_first: "c \<notin> set u \<Longrightarrow> strchr (u @ c # h) c = Some (length u)"
  by (induction u) auto

lemma parse_target_at:
  assumes "CHR ''@'' \<notin> set u"
  shows "parse_target E (u @ CHR ''@'' # h) opts = opts\<lparr>user := take 255 u, host := take 255 h\<rparr>"
proof -
  have pos: "strchr (u @ CHR ''@'' # h) (CHR ''@'') = Some (length u)"
    by (rule strchr_first [OF assms])
  show ?thesis
    by (simp add: parse_target_def pos Let_def)
qed

lemma parse_target_plain:
  assumes "CHR ''@'' \<notin> set target"
  shows "parse_target E target opts =
           opts\<lparr>user := (case getenv_USERNAME E of Some n \<Rightarrow> take 255 n | None \<Rightarrow> ''user''),
                host := take 255 target\<rparr>"
  using assms by (simp add: parse_target_def strchr_None [THEN iffD2])

text \<open>
  Claim C8, as the code has it: a target with an \<open>@\<close> is split at the first one, the part
  before it (cut to the 255 characters the \<open>user\<close> array holds) becoming the user and the
  part after it (cut to 255 characters as well) the host, so \<open>alice@box\<close> gives user \<open>alice\<close>
  and host \<open>box\<close>; a target without \<open>@\<close> becomes the host (cut to 255 characters) and the
  user is the value of the environment variable \<open>USERNAME\<close> (cut to 255 characters) when
  that variable is set.
\<close>

theorem parse_target_splits_at_first_at:
  "(CHR ''@'' \<notin> set u \<longrightarrow>
      user (parse_target E (u @ ''@'' @ h) opts) = take 255 u \<and>
      host (parse_target E (u @ ''@'' @ h) opts) = take 255 h) \<and>
   (CHR ''@'' \<notin> set target \<and> getenv_USERNAME E = Some name \<longrightarrow>
      user (parse_target E target opts) = take 255 name \<and>
      host (parse_target E target opts) = take 255 target)"
  by (simp add: parse_target_at parse_target_plain)

theorem parse_target_splits_at_first_at_witness:
  "user (parse_target (null_env\<lparr>getenv_USERNAME := Some ''carol''\<rparr>) ''alice@box'' zeroed_options) = ''alice'' \<and>
   host (parse_target (null_env\<lparr>getenv_USERNAME := Some ''carol''\<rparr>) ''alice@box'' zeroed_options) = ''box'' \<and>
   user (parse_target (null_env\<lparr>getenv_USERNAME := Some ''carol''\<rparr>) ''box'' zeroed_options) = ''carol'' \<and>
   host (parse_target (null_env\<lparr>getenv_USERNAME := Some ''carol''\<rparr>) ''box'' zeroed_options) = ''box''"
  using parse_target_splits_at_first_at
    [of "''alice''" "null_env\<lparr>getenv_USERNAME := Some ''carol''\<rparr>" "''box''" zeroed_options
        "''box''" "''carol''"]
  by (simp add: null_env_def)

text \<open>
  The claim as first stated, with the whole part before the \<open>@\<close> as user for every target,
  fails for a user part of 256 characters: the user field holds 255 of them.
\<close>

theorem parse_target_long_user_counterexample:
  "user (parse_target null_env (replicate 256 (CHR ''a'') @ ''@box'') zeroed_options)
     \<noteq> replicate 256 (CHR ''a'')"
proof -
  have "user (parse_target null_env (replicate 256 (CHR ''a'') @ ''@'' @ ''box'') zeroed_options)
          = replicate 255 (CHR ''a'')"
    using parse_target_at [of "replicate 256 (CHR ''a'')" null_env "''box''" zeroed_options]
    by simp
  moreover have "length (replicate 255 (CHR ''a'')) \<noteq> length (replicate 256 (CHR ''a''))"
    by simp
  ultimately show ?thesis by (metis append_Cons append_Nil)
qed

text \<open>
  Claim C10: for a target without \<open>@\<close>, when the environment variable \<open>USERNAME\<close> is not
  set, \<open>parse_target\<close> sets the user to the literal string \<open>user\<close>.
\<close>

theorem parse_target_default_user:
  assumes "CHR ''@'' \<notin> set target" and "getenv_USERNAME E = None"
  shows "user (parse_target E target opts) = ''user''"
  using assms by (simp add: parse_target_plain)

theorem parse_target_default_user_witness:
  "CHR ''@'' \<notin> set ''box'' \<and> getenv_USERNAME null_env = None \<and>
   user (parse_target null_env ''box'' zeroed_options) = ''user''"
proof -
  have a: "CHR ''@'' \<notin> set ''box''" by simp
  have b: "getenv_USERNAME null_env = None" by (simp add: null_env_def)
  show ?thesis using a b parse_target_default_user [OF a b, of zeroed_options] by simp
qed

section \<open>Escaping the key\<close>

lemma length_spec_escape:
  "length (spec_escape key) = length key + 3 * length (filter (\<lambda>c. c = SQ) key)"
  by (induction key) (simp_all add: spec_escape_def)



lemma escape_loop_length: "length (escape_loop remaining src) \<le> remaining - 1"
proof (induction src arbitrary: remaining)
  case Nil
  then show ?case by simp
next
  case (Cons c src)
  show ?case
    using Cons.IH [of "remaining - 4"] Cons.IH [of "remaining - 1"] Cons.IH [of remaining]
    by auto
qed









section \<open>The path of the public key\<close>

lemma starts_with_iff: "starts_with n s \<longleftrightarrow> (\<exists>b. s = n @ b)"
  by (induction n s rule: starts_with.induct) auto

lemma strstr_None_iff: "strstr hay n = None \<longleftrightarrow> \<not> (\<exists>a b. hay = a @ n @ b)"
proof (induction hay)
  case Nil
  then show ?case by auto
next
  case (Cons h hs)
  show ?case
  proof (cases "starts_with n (h # hs)")
    case True
    then obtain b where "h # hs = [] @ n @ b" by (auto simp: starts_with_iff)
    then have "\<exists>a b. h # hs = a @ n @ b" by blast
    with True show ?thesis by simp
  next
    case False
    have "(\<exists>a b. h # hs = a @ n @ b) \<longleftrightarrow> (\<exists>a b. hs = a @ n @ b)"
    proof
      assume "\<exists>a b. h # hs = a @ n @ b"
      then obtain a b where ab: "h # hs = a @ n @ b" by blast
      show "\<exists>a b. hs = a @ n @ b"
      proof (cases a)
        case Nil
        with ab False show ?thesis by (simp add: starts_with_iff)
      next
        case (Cons x a')
        with ab have "hs = a' @ n @ b" by simp
        then show ?thesis by blast
      qed
    next
      assume "\<exists>a b. hs = a @ n @ b"
      then obtain a b where "hs = a @ n @ b" by blast
      then have "h # hs = (h # a) @ n @ b" by simp
      then show "\<exists>a b. h # hs = a @ n @ b" by blast
    qed
    with False Cons.IH show ?thesis by simp
  qed
qed

lemma strstr_found: "strstr (a @ n @ b) n \<noteq> None"
  using strstr_None_iff [of "a @ n @ b" n] by blast

lemma strstr_absent_char: "c \<notin> set hay \<Longrightarrow> strstr hay (c # n) = None"
  by (induction hay) auto

lemma get_public_key_path_identity:
  assumes "key_file opts = []" and "identity_file opts = p" and "p \<noteq> []"
    and "hd p \<noteq> CHR ''~''" and "length p < MAX_PATH_LEN"
  shows "get_public_key_path E opts =
           (if strstr p ''.pub'' = None then p @ take (MAX_PATH_LEN - length p - 1) ''.pub'' else p)"
proof -
  obtain c rest where p: "p = c # rest" and c: "c \<noteq> CHR ''~''"
    using assms(3,4) by (cases p) auto
  have t: "take (MAX_PATH_LEN - 1) p = p"
    using assms(5) by simp
  show ?thesis
    unfolding get_public_key_path_def Let_def assms(1,2) t
    using c by (simp add: p)
qed

text \<open>
  Claim C4, as the code has it: for every non-empty identity-file path that does not
  start with \<open>~\<close>, has no \<open>.pub\<close> anywhere in it and leaves room for four more characters
  in a buffer of \<open>MAX_PATH_LEN\<close>, \<open>get_public_key_path\<close> appends exactly one \<open>.pub\<close>; every
  path that ends in \<open>.pub\<close>, does not start with \<open>~\<close> and fits the buffer is returned
  unchanged. (No key-file option is set: \<open>parse_args\<close> never sets one.)
\<close>

theorem get_public_key_path_appends_pub:
  assumes "key_file opts = []" and "identity_file opts = p" and "p \<noteq> []"
    and "hd p \<noteq> CHR ''~''"
  shows "(\<not> (\<exists>a b. p = a @ ''.pub'' @ b) \<and> length p + 4 < MAX_PATH_LEN \<longrightarrow>
            get_public_key_path E opts = p @ ''.pub'') \<and>
         ((\<exists>q. p = q @ ''.pub'') \<and> length p < MAX_PATH_LEN \<longrightarrow>
            get_public_key_path E opts = p)"
proof (intro conjI impI)
  assume a: "\<not> (\<exists>a b. p = a @ ''.pub'' @ b) \<and> length p + 4 < MAX_PATH_LEN"
  then have "strstr p ''.pub'' = None" by (simp only: strstr_None_iff not_False_eq_True)
  moreover have len: "length p + 4 < MAX_PATH_LEN"
    using a by blast
  have "length ''.pub'' = 4" by simp
  with len have "length ''.pub'' \<le> MAX_PATH_LEN - length p - 1"
    by arith
  then have "take (MAX_PATH_LEN - length p - 1) ''.pub'' = ''.pub''"
    by (rule take_all)
  moreover have "length p < MAX_PATH_LEN" using len by arith
  ultimately show "get_public_key_path E opts = p @ ''.pub''"
    using get_public_key_path_identity [OF assms, of E] by simp
next
  assume b: "(\<exists>q. p = q @ ''.pub'') \<and> length p < MAX_PATH_LEN"
  then obtain q where "p = q @ ''.pub'' @ []" by auto
  then have ne: "strstr p ''.pub'' \<noteq> None"
    using strstr_found [of q "''.pub''" "[]"] by simp
  from b have len: "length p < MAX_PATH_LEN" by blast
  show "get_public_key_path E opts = p"
    unfolding get_public_key_path_identity [OF assms len] using ne by (simp only: if_False)
qed

theorem get_public_key_path_appends_pub_witness:
  "get_public_key_path (scripted_env None None (\<lambda>p. None) (\<lambda>p. False) (\<lambda>c. 0) None)
     (zeroed_options\<lparr>identity_file := ''id_ed25519''\<rparr>) = ''id_ed25519.pub'' \<and>
   get_public_key_path (scripted_env None None (\<lambda>p. None) (\<lambda>p. False) (\<lambda>c. 0) None)
     (zeroed_options\<lparr>identity_file := ''id_rsa.pub''\<rparr>) = ''id_rsa.pub''"
proof -
  let ?E = "scripted_env None None (\<lambda>p. None) (\<lambda>p. False) (\<lambda>c. 0) None"
  have n: "\<not> (\<exists>a b. ''id_ed25519'' = a @ ''.pub'' @ b)"
    using strstr_None_iff [of "''id_ed25519''" "''.pub''"] by simp
  have e: "\<exists>q. ''id_rsa.pub'' = q @ ''.pub''"
    by (rule exI [of _ "''id_rsa''"]) simp
  show ?thesis
    using get_public_key_path_appends_pub
            [of "zeroed_options\<lparr>identity_file := ''id_ed25519''\<rparr>" "''id_ed25519''" ?E]
          get_public_key_path_appends_pub
            [of "zeroed_options\<lparr>identity_file := ''id_rsa.pub''\<rparr>" "''id_rsa.pub''" ?E]
          n e
    by (simp add: zeroed_options_def MAX_PATH_LEN_def)
qed

text \<open>
  As first stated the claim fails for a path that starts with \<open>~\<close>, which the function
  goes on to expand: the path of the program's own help text is not returned unchanged.
\<close>

theorem get_public_key_path_tilde_counterexample:
  "get_public_key_path
     (scripted_env (Some (''C:'' @ [BSL] @ ''Users'' @ [BSL] @ ''bob'')) None
        (\<lambda>p. None) (\<lambda>p. False) (\<lambda>c. 0) None)
     (zeroed_options\<lparr>identity_file := ''~/.ssh/id_ed25519.pub''\<rparr>)
   \<noteq> ''~/.ssh/id_ed25519.pub''"
  by (simp add: get_public_key_path_def get_home_dir_def scripted_env_def zeroed_options_def
      MAX_PATH_LEN_def snprintf_def)

text \<open>
  A path with \<open>.pub\<close> inside it but not at its end gets no suffix: the test is
  \<open>strstr\<close>, not a test of the end of the path.
\<close>

lemma get_public_key_path_pub_inside:
  "get_public_key_path (scripted_env None None (\<lambda>p. None) (\<lambda>p. False) (\<lambda>c. 0) None)
     (zeroed_options\<lparr>identity_file := ''id_rsa.pub.old''\<rparr>) = ''id_rsa.pub.old''"
  by (simp add: get_public_key_path_def get_home_dir_def scripted_env_def zeroed_options_def
      MAX_PATH_LEN_def snprintf_def)

section \<open>What a step leaves alone\<close>

lemma printf_frame [simp]:
  "outside (printf t s) = outside s" "cmds (printf t s) = cmds s"
  "printed (printf t s) = printed s @ [(Stdout, t)]"
  by (simp_all add: printf_def)

lemma eprintf_frame [simp]:
  "outside (eprintf t s) = outside s" "cmds (eprintf t s) = cmds s"
  "printed (eprintf t s) = printed s @ [(Stderr, t)]"
  by (simp_all add: eprintf_def)

lemma stdout_of_simps [simp]:
  "stdout_of (printf t s) = stdout_of s @ [t]" "stdout_of (eprintf t s) = stdout_of s"
  by (simp_all add: stdout_of_def)

lemma stderr_of_simps [simp]:
  "stderr_of (printf t s) = stderr_of s" "stderr_of (eprintf t s) = stderr_of s @ [t]"
  by (simp_all add: stderr_of_def)

lemma system_eq:
  "system E cmd s =
     (fst (run_system E cmd (outside s)),
      s\<lparr>outside := snd (run_system E cmd (outside s)), cmds := cmds s @ [cmd]\<rparr>)"
  by (simp add: system_def split: prod.split)

lemma popen_read_eq:
  "popen_read E cmd s =
     (fst (run_popen E cmd (outside s)),
      s\<lparr>outside := snd (run_popen E cmd (outside s)), cmds := cmds s @ [cmd]\<rparr>)"
  by (simp add: popen_read_def split: prod.split)

lemma stdout_of_update [simp]:
  "stdout_of (s\<lparr>outside := h\<rparr>) = stdout_of s" "stdout_of (s\<lparr>cmds := c\<rparr>) = stdout_of s"
  by (simp_all add: stdout_of_def)

lemma stderr_of_update [simp]:
  "stderr_of (s\<lparr>outside := h\<rparr>) = stderr_of s" "stderr_of (s\<lparr>cmds := c\<rparr>) = stderr_of s"
  by (simp_all add: stderr_of_def)

lemma print_help_frame [simp]:
  "outside (print_help prog s) = outside s" "cmds (print_help prog s) = cmds s"
  "stderr_of (print_help prog s) = stderr_of s"
  by (simp_all add: print_help_def)

lemma announce_frame [simp]:
  "outside (announce opts key_path s) = outside s" "cmds (announce opts key_path s) = cmds s"
  "stderr_of (announce opts key_path s) = stderr_of s"
  by (simp_all add: announce_def)

lemma report_missing_key_frame [simp]:
  "outside (report_missing_key E key_path s) = outside s"
  "cmds (report_missing_key E key_path s) = cmds s"
  by (simp_all add: report_missing_key_def Let_def)

lemma parse_loop_frame:
  "outside (snd (parse_loop E prog args opts tf s)) = outside s \<and>
   cmds (snd (parse_loop E prog args opts tf s)) = cmds s"
  by (induction E prog args opts tf s rule: parse_loop.induct) simp_all

lemma parse_args_frame:
  assumes "parse_args E prog args s0 = (r, s1)"
  shows "outside s1 = outside s0" and "cmds s1 = cmds s0"
  using assms parse_loop_frame [of E prog args "zeroed_options\<lparr>port := 22\<rparr>" False s0]
  by (simp_all add: parse_args_def)

lemma where_cmd_text: "where_cmd = ''where ssh >nul 2>&1''"
  by (simp add: where_cmd_def snprintf_def MAX_CMD_LEN_def)

section \<open>The order of the remote commands\<close>

lemma add_key_eq:
  "add_key E opts key s =
     (fst (run_system E (append_cmd opts key) (outside s)),
      s\<lparr>outside := snd (run_system E (append_cmd opts key) (outside s)),
        printed := printed s @ [(Stdout, ''Adding key to authorized_keys...'' @ [LF])],
        cmds := cmds s @ [append_cmd opts key]\<rparr>)"
  by (simp add: add_key_def system_eq printf_def)

lemma copy_key_to_server_listed:
  assumes "\<not> force opts"
    and "run_popen E (check_cmd opts) (snd (run_system E (mkdir_cmd opts) (outside s))) = (Some piped, h)"
    and "strstr (cstr (take (MAX_KEY_SIZE - 1) piped)) key \<noteq> None"
  shows "copy_key_to_server E opts key s =
           (0, s\<lparr>outside := h,
                 printed := printed s @ [(Stdout, ''Creating ~/.ssh directory...'' @ [LF]),
                                         (Stdout, ''Key already exists on server'' @ [LF])],
                 cmds := cmds s @ [mkdir_cmd opts, check_cmd opts]\<rparr>)"
  using assms
  by (simp add: copy_key_to_server_def Let_def system_eq popen_read_eq printf_def)

lemma copy_key_to_server_not_listed:
  assumes "\<not> force opts"
    and "run_popen E (check_cmd opts) (snd (run_system E (mkdir_cmd opts) (outside s))) = (Some piped, h)"
    and "strstr (cstr (take (MAX_KEY_SIZE - 1) piped)) key = None"
  shows "copy_key_to_server E opts key s =
           (fst (run_system E (append_cmd opts key) h),
            s\<lparr>outside := snd (run_system E (append_cmd opts key) h),
              printed := printed s @ [(Stdout, ''Creating ~/.ssh directory...'' @ [LF]),
                                      (Stdout, ''Adding key to authorized_keys...'' @ [LF])],
              cmds := cmds s @ [mkdir_cmd opts, check_cmd opts, append_cmd opts key]\<rparr>)"
  using assms
  by (simp add: copy_key_to_server_def Let_def system_eq popen_read_eq add_key_eq printf_def)

lemma copy_key_to_server_forced:
  assumes "force opts"
  shows "copy_key_to_server E opts key s =
           (fst (run_system E (append_cmd opts key)
                   (snd (run_system E (mkdir_cmd opts) (outside s)))),
            s\<lparr>outside := snd (run_system E (append_cmd opts key)
                               (snd (run_system E (mkdir_cmd opts) (outside s)))),
              printed := printed s @ [(Stdout, ''Creating ~/.ssh directory...'' @ [LF]),
                                      (Stdout, ''Adding key to authorized_keys...'' @ [LF])],
              cmds := cmds s @ [mkdir_cmd opts, append_cmd opts key]\<rparr>)"
  using assms
  by (simp add: copy_key_to_server_def Let_def system_eq add_key_eq printf_def)

lemma copy_key_to_server_starts_with_mkdir:
  "\<exists>rest. cmds (snd (copy_key_to_server E opts key s)) = cmds s @ mkdir_cmd opts # rest"
  by (simp add: copy_key_to_server_def Let_def system_eq popen_read_eq add_key_eq
      split: prod.split option.split)

text \<open>
  Claim C9: whenever \<open>copy_key_to_server\<close> runs, the first command line it hands to
  \<open>system\<close> is the directory setup (\<open>mkdir -p ~/.ssh && chmod 700 ~/.ssh\<close> on the remote
  host), before the check for an existing key. A run that ends with the key already
  present has therefore run exactly two commands, the directory setup and then the
  listing, and leaves the outside world as these two have made it, with exit status 0.
\<close>

theorem mkdir_before_key_check:
  "(\<exists>rest. cmds (snd (copy_key_to_server E opts key s)) = cmds s @ mkdir_cmd opts # rest) \<and>
   (\<not> force opts \<and>
    run_popen E (check_cmd opts) (snd (run_system E (mkdir_cmd opts) (outside s))) = (Some piped, h) \<and>
    strstr (cstr (take (MAX_KEY_SIZE - 1) piped)) key \<noteq> None \<longrightarrow>
      fst (copy_key_to_server E opts key s) = 0 \<and>
      cmds (snd (copy_key_to_server E opts key s)) = cmds s @ [mkdir_cmd opts, check_cmd opts] \<and>
      outside (snd (copy_key_to_server E opts key s)) = h \<and>
      stdout_of (snd (copy_key_to_server E opts key s))
        = stdout_of s @ [''Creating ~/.ssh directory...'' @ [LF],
                         ''Key already exists on server'' @ [LF]])"
proof (intro conjI impI)
  show "\<exists>rest. cmds (snd (copy_key_to_server E opts key s)) = cmds s @ mkdir_cmd opts # rest"
    by (rule copy_key_to_server_starts_with_mkdir)
next
  assume a: "\<not> force opts \<and>
    run_popen E (check_cmd opts) (snd (run_system E (mkdir_cmd opts) (outside s))) = (Some piped, h) \<and>
    strstr (cstr (take (MAX_KEY_SIZE - 1) piped)) key \<noteq> None"
  then have eq: "copy_key_to_server E opts key s =
           (0, s\<lparr>outside := h,
                 printed := printed s @ [(Stdout, ''Creating ~/.ssh directory...'' @ [LF]),
                                         (Stdout, ''Key already exists on server'' @ [LF])],
                 cmds := cmds s @ [mkdir_cmd opts, check_cmd opts]\<rparr>)"
    using copy_key_to_server_listed [of opts E s piped h key] by blast
  show "fst (copy_key_to_server E opts key s) = 0"
    and "cmds (snd (copy_key_to_server E opts key s)) = cmds s @ [mkdir_cmd opts, check_cmd opts]"
    and "outside (snd (copy_key_to_server E opts key s)) = h"
    and "stdout_of (snd (copy_key_to_server E opts key s))
        = stdout_of s @ [''Creating ~/.ssh directory...'' @ [LF],
                         ''Key already exists on server'' @ [LF]]"
    by (simp_all add: eq stdout_of_def)
qed


theorem mkdir_before_key_check_witness:
  "fst (copy_key_to_server (bob_pc (\<lambda>c. 0) (Some (bob_key @ [LF]))) bob_options bob_key (start ())) = 0 \<and>
   cmds (snd (copy_key_to_server (bob_pc (\<lambda>c. 0) (Some (bob_key @ [LF]))) bob_options bob_key (start ())))
     = [''ssh bob@box '' @ [DQ] @ ''mkdir -p ~/.ssh && chmod 700 ~/.ssh'' @ [DQ],
        ''ssh bob@box '' @ [DQ] @ ''cat ~/.ssh/authorized_keys 2>/dev/null'' @ [DQ]] \<and>
   stdout_of (snd (copy_key_to_server (bob_pc (\<lambda>c. 0) (Some (bob_key @ [LF]))) bob_options bob_key (start ())))
     = [''Creating ~/.ssh directory...'' @ [LF], ''Key already exists on server'' @ [LF]]"
proof -
  have m: "mkdir_cmd bob_options = ''ssh bob@box '' @ [DQ] @ ''mkdir -p ~/.ssh && chmod 700 ~/.ssh'' @ [DQ]"
    by (simp add: mkdir_cmd_def bob_options_def zeroed_options_def config_str_def port_str_def
        snprintf_def MAX_CMD_LEN_def)
  have c: "check_cmd bob_options = ''ssh bob@box '' @ [DQ] @ ''cat ~/.ssh/authorized_keys 2>/dev/null'' @ [DQ]"
    by (simp add: check_cmd_def bob_options_def zeroed_options_def config_str_def port_str_def
        snprintf_def MAX_CMD_LEN_def)
  have f: "\<not> force bob_options" by (simp add: bob_options_def zeroed_options_def)
  have l: "strstr (cstr (take (MAX_KEY_SIZE - 1) (bob_key @ [LF]))) bob_key \<noteq> None"
    by (simp add: bob_key_def MAX_KEY_SIZE_def cstr_def)
  have p: "run_popen (bob_pc (\<lambda>c. 0) (Some (bob_key @ [LF]))) (check_cmd bob_options)
             (snd (run_system (bob_pc (\<lambda>c. 0) (Some (bob_key @ [LF]))) (mkdir_cmd bob_options)
                     (outside (start ())))) = (Some (bob_key @ [LF]), ())"
    by (simp add: bob_pc_def scripted_env_def)
  show ?thesis
    using mkdir_before_key_check
      [of "bob_pc (\<lambda>c. 0) (Some (bob_key @ [LF]))" bob_options bob_key "start ()"
          "bob_key @ [LF]" "()"] f l p
    by (simp add: m c start_def stdout_of_def)
qed

section \<open>Runs of the whole program\<close>

lemma tilde_step_length:
  "length P \<le> n \<Longrightarrow>
   length (case P of [] \<Rightarrow> P | c # rest \<Rightarrow> if c = CHR ''~'' then take n (F rest) else P) \<le> n"
  by (auto split: list.split)

lemma untilded_length:
  "length (if kf \<noteq> [] then take (MAX_PATH_LEN - 1) kf
           else if idf \<noteq> [] then
             (let kp = take (MAX_PATH_LEN - 1) idf
              in if strstr kp ''.pub'' = None
                 then kp @ take (MAX_PATH_LEN - length kp - 1) ''.pub'' else kp)
           else snprintf MAX_PATH_LEN dflt) \<le> MAX_PATH_LEN - 1"
  by (auto simp: Let_def snprintf_def min_def)

lemma get_public_key_path_length: "length (get_public_key_path E opts) \<le> MAX_PATH_LEN - 1"
  unfolding get_public_key_path_def Let_def
  using untilded_length [unfolded Let_def]
  by (intro tilde_step_length) 




lemma parse_args_bob:
  "parse_args E prog [''bob@box''] s = (Return (0, bob_options), s)"
  "parse_args E prog [''-n'', ''bob@box''] s = (Return (0, bob_options\<lparr>dry_run := True\<rparr>), s)"
  "parse_args E prog [''-q'', ''bob@box''] s = (Return (0, bob_options\<lparr>quiet := True\<rparr>), s)"
  by (simp_all add: parse_args_def parse_target_def bob_options_def zeroed_options_def)




lemma strip_pub_suffix:
  "strstr (priv @ ''.pub'') ''.pub'' = Some (length priv) \<Longrightarrow> strip_pub (priv @ ''.pub'') = priv"
  by (simp add: strip_pub_def)

lemma main_key_unreadable:
  assumes "parse_args E prog args s0 = (Return (0, opts), s1)"
    and "\<not> dry_run opts"
    and "fst (run_system E where_cmd (outside s0)) = 0"
    and "read_public_key E (get_public_key_path E opts) = None"
  shows "fst (main E prog args s0) = 1"
    and "cmds (snd (main E prog args s0)) = cmds s0 @ [where_cmd]"
    and "stderr_of (snd (main E prog args s0)) =
           stderr_of s1 @ [''Public key not found: '' @ get_public_key_path E opts @ [LF]]
           @ (if file_exists E (strip_pub (get_public_key_path E opts))
              then [''Private key found: '' @ strip_pub (get_public_key_path E opts) @ [LF],
                    ''Generate public key: ssh-keygen -y -f ''
                    @ strip_pub (get_public_key_path E opts) @ '' > ''
                    @ get_public_key_path E opts @ [LF]]
              else [])"
proof -
  have t: "take (MAX_PATH_LEN - Suc 0) (get_public_key_path E opts) = get_public_key_path E opts"
    using get_public_key_path_length [of E opts] by simp
  show "fst (main E prog args s0) = 1"
    using assms parse_args_frame [OF assms(1)]
    by (simp add: main_def check_ssh_installed_def system_eq Let_def)
  show "cmds (snd (main E prog args s0)) = cmds s0 @ [where_cmd]"
    using assms parse_args_frame [OF assms(1)]
    by (simp add: main_def check_ssh_installed_def system_eq Let_def)
  show "stderr_of (snd (main E prog args s0)) =
           stderr_of s1 @ [''Public key not found: '' @ get_public_key_path E opts @ [LF]]
           @ (if file_exists E (strip_pub (get_public_key_path E opts))
              then [''Private key found: '' @ strip_pub (get_public_key_path E opts) @ [LF],
                    ''Generate public key: ssh-keygen -y -f ''
                    @ strip_pub (get_public_key_path E opts) @ '' > ''
                    @ get_public_key_path E opts @ [LF]]
              else [])"
    using assms parse_args_frame [OF assms(1)]
    by (simp add: main_def check_ssh_installed_def system_eq Let_def report_missing_key_def t)
qed

text \<open>
  Claim C6, as the code has it: for every invocation that is not a dry run, whose
  arguments parse and for which \<open>where ssh\<close> finds the client, if the public key file
  cannot be read (or is empty) while the private key file exists, the private key's path
  being the public key's path without its \<open>.pub\<close> suffix (the first \<open>.pub\<close> in the path),
  the program reports on the standard error stream that the public key was not found,
  names the private key and suggests the \<open>ssh-keygen\<close> command that generates the public
  key from it, exits with code 1, and has run no \<open>ssh\<close>: its only subprocess is the local
  \<open>where ssh\<close>.
\<close>

theorem missing_key_names_private_key:
  assumes "parse_args E prog args s0 = (Return (0, opts), s1)"
    and "\<not> dry_run opts"
    and "fst (run_system E ''where ssh >nul 2>&1'' (outside s0)) = 0"
    and "get_public_key_path E opts = priv @ ''.pub''"
    and "strstr (priv @ ''.pub'') ''.pub'' = Some (length priv)"
    and "read_public_key E (priv @ ''.pub'') = None"
    and "file_exists E priv"
  shows "fst (main E prog args s0) = 1 \<and>
         cmds (snd (main E prog args s0)) = cmds s0 @ [''where ssh >nul 2>&1''] \<and>
         stderr_of (snd (main E prog args s0)) =
           stderr_of s1 @
           [''Public key not found: '' @ priv @ ''.pub'' @ [LF],
            ''Private key found: '' @ priv @ [LF],
            ''Generate public key: ssh-keygen -y -f '' @ priv @ '' > '' @ priv @ ''.pub'' @ [LF]]"
proof -
  have w: "fst (run_system E where_cmd (outside s0)) = 0"
    using assms(3) by (simp add: where_cmd_text)
  have r: "read_public_key E (get_public_key_path E opts) = None"
    using assms(4,6) by simp
  note p = strip_pub_suffix [OF assms(5)]
  show ?thesis
    using main_key_unreadable [OF assms(1,2) w r] assms(7)
    by (simp add: assms(4) p where_cmd_text)
qed

theorem missing_key_names_private_key_witness:
  "fst (main (bob_pc_no_pub (\<lambda>c. 0)) ''ssh-copy-id'' [''-q'', ''bob@box''] (start ())) = 1 \<and>
   cmds (snd (main (bob_pc_no_pub (\<lambda>c. 0)) ''ssh-copy-id'' [''-q'', ''bob@box''] (start ())))
     = [''where ssh >nul 2>&1''] \<and>
   stderr_of (snd (main (bob_pc_no_pub (\<lambda>c. 0)) ''ssh-copy-id'' [''-q'', ''bob@box''] (start ())))
     = [''Public key not found: '' @ bob_pub @ [LF],
        ''Private key found: '' @ bob_home @ [BSL] @ ''.ssh'' @ [BSL] @ ''id_rsa'' @ [LF],
        ''Generate public key: ssh-keygen -y -f '' @ bob_home @ [BSL] @ ''.ssh'' @ [BSL]
        @ ''id_rsa'' @ '' > '' @ bob_pub @ [LF]]"
proof -
  let ?E = "bob_pc_no_pub (\<lambda>c. 0)"
  let ?priv = "bob_home @ [BSL] @ ''.ssh'' @ [BSL] @ ''id_rsa''"
  have path: "get_public_key_path ?E (bob_options\<lparr>quiet := True\<rparr>) = ?priv @ ''.pub''"
    by (simp add: get_public_key_path_def get_home_dir_def bob_pc_no_pub_def scripted_env_def
        bob_options_def zeroed_options_def bob_home_def snprintf_def MAX_PATH_LEN_def)
  have first: "strstr (?priv @ ''.pub'') ''.pub'' = Some (length ?priv)"
    by (simp add: bob_home_def)
  have unread: "read_public_key ?E (?priv @ ''.pub'') = None"
    by (simp add: read_public_key_def bob_pc_no_pub_def scripted_env_def)
  have there: "file_exists ?E ?priv"
    by (simp add: file_exists_def bob_pc_no_pub_def scripted_env_def)
  have q: "\<not> dry_run (bob_options\<lparr>quiet := True\<rparr>)"
    by (simp add: bob_options_def zeroed_options_def)
  have w: "fst (run_system ?E ''where ssh >nul 2>&1'' (outside (start ()))) = 0"
    by (simp add: bob_pc_no_pub_def scripted_env_def)
  show ?thesis
    using missing_key_names_private_key
      [OF parse_args_bob(3) q w path first unread there, of "''ssh-copy-id''"]
    by (simp add: start_def stderr_of_def bob_pub_def)
qed

text \<open>
  As first stated the claim fails where no ssh client is installed: the public key is
  missing, the private key is there, and the one message on the standard error stream is
  about the client.
\<close>

theorem missing_key_without_client_counterexample:
  "stderr_of (snd (main (bob_pc_no_pub (\<lambda>c. if c = ''where ssh >nul 2>&1'' then 1 else 0))
                     ''ssh-copy-id'' [''bob@box''] (start ())))
     = [''SSH client not found. Please install OpenSSH for Windows.'' @ [LF]]"
  by (simp add: main_def parse_args_bob(1) check_ssh_installed_def system_eq where_cmd_text
      bob_pc_no_pub_def scripted_env_def start_def stderr_of_def eprintf_def)

section \<open>Exit codes\<close>

lemma read_public_key_eq:
  "read_public_key E path =
     (case fopen_r E path of
        None \<Rightarrow> None
      | Some content \<Rightarrow>
          if content = [] then None
          else Some (trim_string (cstr (take (MAX_KEY_SIZE - 1) content))))"
  by (simp add: read_public_key_def Let_def MAX_KEY_SIZE_def split: option.split)

lemma bob_pc_blank_key_path:
  "get_public_key_path (bob_pc_blank_key status piped) bob_options = bob_pub"
  by (simp add: get_public_key_path_def get_home_dir_def bob_pc_blank_key_def scripted_env_def
      bob_options_def zeroed_options_def bob_pub_def bob_home_def snprintf_def MAX_PATH_LEN_def)

lemma bob_pc_blank_key_read:
  "read_public_key (bob_pc_blank_key status piped) bob_pub = Some []"
  by (simp add: read_public_key_eq bob_pc_blank_key_def scripted_env_def MAX_KEY_SIZE_def
      cstr_def trim_string_def is_blank_def)

lemma bob_pc_blank_key_system:
  "run_system (bob_pc_blank_key status piped) cmd h = (status cmd, h)"
  "run_popen (bob_pc_blank_key status piped) cmd h = (piped, h)"
  by (simp_all add: bob_pc_blank_key_def scripted_env_def)

lemma strstr_empty_needle: "strstr hay [] = Some 0"
  by (cases hay) simp_all

lemma empty_key_already_listed:
  assumes "\<not> force opts"
    and "run_popen E (check_cmd opts) (snd (run_system E (mkdir_cmd opts) (outside s))) = (Some piped, h)"
  shows "copy_key_to_server E opts [] s =
           (0, s\<lparr>outside := h,
                 printed := printed s @ [(Stdout, ''Creating ~/.ssh directory...'' @ [LF]),
                                         (Stdout, ''Key already exists on server'' @ [LF])],
                 cmds := cmds s @ [mkdir_cmd opts, check_cmd opts]\<rparr>)"
  using assms by (intro copy_key_to_server_listed) (simp_all add: strstr_empty_needle)

text \<open>
  Claim C7 does not hold of the code. With a public key file that holds white space
  only, and nothing at all in the remote authorized-keys file, the run
  \<open>ssh-copy-id bob@box\<close> reads the empty string as the key, finds it in what it fetched,
  reports that the key already exists, writes nothing to the standard error stream and
  exits with code 0, where an empty key file is to give an error and the code 1:
  \<open>read_public_key\<close> looks at the number of bytes read before it trims them.
\<close>

theorem blank_key_file_exits_0:
  "read_public_key (bob_pc_blank_key (\<lambda>c. 0) (Some []))
     (get_public_key_path (bob_pc_blank_key (\<lambda>c. 0) (Some [])) bob_options) = Some [] \<and>
   fst (main (bob_pc_blank_key (\<lambda>c. 0) (Some [])) ''ssh-copy-id'' [''bob@box''] (start ())) = 0 \<and>
   stderr_of (snd (main (bob_pc_blank_key (\<lambda>c. 0) (Some [])) ''ssh-copy-id'' [''bob@box'']
                     (start ()))) = [] \<and>
   stdout_of (snd (main (bob_pc_blank_key (\<lambda>c. 0) (Some [])) ''ssh-copy-id'' [''bob@box'']
                     (start ())))
     = [''Copying key: '' @ bob_pub @ [LF], ''To server: bob@box'', [LF],
        ''Testing connection...'' @ [LF],
        ''Creating ~/.ssh directory...'' @ [LF],
        ''Key already exists on server'' @ [LF],
        ''Key copied successfully!'' @ [LF],
        ''Testing connection with key...'' @ [LF],
        ''Connection with key works!'' @ [LF]]"
proof -
  let ?E = "bob_pc_blank_key (\<lambda>c. 0) (Some [])"
  have f: "\<not> force bob_options" "\<not> dry_run bob_options" "\<not> quiet bob_options"
    "port bob_options = 22" "user bob_options = ''bob''" "host bob_options = ''box''"
    by (simp_all add: bob_options_def zeroed_options_def)
  have copy: "copy_key_to_server ?E bob_options [] s =
           (0, s\<lparr>outside := (),
                 printed := printed s @ [(Stdout, ''Creating ~/.ssh directory...'' @ [LF]),
                                         (Stdout, ''Key already exists on server'' @ [LF])],
                 cmds := cmds s @ [mkdir_cmd bob_options, check_cmd bob_options]\<rparr>)" for s
    by (rule empty_key_already_listed) (simp_all add: f bob_pc_blank_key_system)
  have run: "main ?E ''ssh-copy-id'' [''bob@box''] (start ()) = (0, snd (main ?E ''ssh-copy-id'' [''bob@box''] (start ())))"
    and out: "printed (snd (main ?E ''ssh-copy-id'' [''bob@box''] (start ())))
      = map (Pair Stdout)
          [''Copying key: '' @ bob_pub @ [LF], ''To server: bob@box'', [LF],
           ''Testing connection...'' @ [LF],
           ''Creating ~/.ssh directory...'' @ [LF],
           ''Key already exists on server'' @ [LF],
           ''Key copied successfully!'' @ [LF],
           ''Testing connection with key...'' @ [LF],
           ''Connection with key works!'' @ [LF]]"
    by (simp_all add: main_def parse_args_bob(1) check_ssh_installed_def run_ssh_command_def
        system_eq bob_pc_blank_key_path bob_pc_blank_key_read bob_pc_blank_key_system copy f
        announce_def report_copied_def test_connection_def start_def)
  have "fst (main ?E ''ssh-copy-id'' [''bob@box''] (start ())) = 0"
    using run by (metis fst_conv)
  then show ?thesis
    by (simp add: bob_pc_blank_key_path bob_pc_blank_key_read stderr_of_def stdout_of_def out)
qed

section \<open>The quiet option\<close>

lemma bob_options_flags:
  "\<not> dry_run (bob_options\<lparr>quiet := q\<rparr>)" "\<not> force (bob_options\<lparr>quiet := q\<rparr>)"
  by (simp_all add: bob_options_def zeroed_options_def)

lemma bob_pc_system: "run_system (bob_pc status piped) cmd h = (status cmd, h)"
  by (simp add: bob_pc_def scripted_env_def)

lemma bob_pc_path:
  "get_public_key_path (bob_pc status piped) (bob_options\<lparr>quiet := q\<rparr>) = bob_pub"
  by (simp add: get_public_key_path_def get_home_dir_def bob_pc_def scripted_env_def
      bob_options_def zeroed_options_def bob_pub_def bob_home_def snprintf_def MAX_PATH_LEN_def)

lemma bob_pc_key: "read_public_key (bob_pc status piped) bob_pub = Some bob_key"
  by (simp add: read_public_key_def bob_pc_def scripted_env_def bob_key_def MAX_KEY_SIZE_def
      cstr_def trim_string_def is_blank_def)

lemma bob_pc_copy:
  "copy_key_to_server (bob_pc (\<lambda>c. 0) (Some [])) (bob_options\<lparr>quiet := q\<rparr>) bob_key s =
     (0, s\<lparr>outside := (),
           printed := printed s @ [(Stdout, ''Creating ~/.ssh directory...'' @ [LF]),
                                   (Stdout, ''Adding key to authorized_keys...'' @ [LF])],
           cmds := cmds s @ [mkdir_cmd (bob_options\<lparr>quiet := q\<rparr>),
                             check_cmd (bob_options\<lparr>quiet := q\<rparr>),
                             append_cmd (bob_options\<lparr>quiet := q\<rparr>) bob_key]\<rparr>)"
proof -
  have f: "\<not> force (bob_options\<lparr>quiet := q\<rparr>)"
    by (simp add: bob_options_def zeroed_options_def)
  have p: "run_popen (bob_pc (\<lambda>c. 0) (Some [])) (check_cmd (bob_options\<lparr>quiet := q\<rparr>))
             (snd (run_system (bob_pc (\<lambda>c. 0) (Some [])) (mkdir_cmd (bob_options\<lparr>quiet := q\<rparr>))
                     (outside s))) = (Some [], ())"
    by (simp add: bob_pc_def scripted_env_def)
  have n: "strstr (cstr (take (MAX_KEY_SIZE - 1) [])) bob_key = None"
    by (simp add: cstr_def bob_key_def)
  show ?thesis
    using copy_key_to_server_not_listed [OF f p n]
    by (simp add: bob_pc_def scripted_env_def)
qed

text \<open>
  Claim C5 does not hold of the code. The run \<open>ssh-copy-id -q bob@box\<close> that succeeds
  prints two progress messages on the standard output: \<open>copy_key_to_server\<close> prints
  without looking at the quiet option, which \<open>main\<close> does look at for its own messages.
\<close>

theorem quiet_run_prints_progress:
  "fst (main (bob_pc (\<lambda>c. 0) (Some [])) ''ssh-copy-id'' [''-q'', ''bob@box''] (start ())) = 0 \<and>
   printed (snd (main (bob_pc (\<lambda>c. 0) (Some [])) ''ssh-copy-id'' [''-q'', ''bob@box''] (start ())))
     = [(Stdout, ''Creating ~/.ssh directory...'' @ [LF]),
        (Stdout, ''Adding key to authorized_keys...'' @ [LF])]"
  by (simp add: main_def parse_args_bob(3) check_ssh_installed_def run_ssh_command_def system_eq
      bob_pc_path bob_pc_key bob_pc_copy bob_options_flags announce_def report_copied_def
      start_def bob_pc_system)

section \<open>Running the deployment twice\<close>

lemma cstr_id: "NUL \<notin> set s \<Longrightarrow> cstr s = s"
  by (auto simp: cstr_def takeWhile_eq_all_conv)

lemma listed_after_adding:
  assumes "length old + length key < MAX_KEY_SIZE"
    and "NUL \<notin> set old" and "NUL \<notin> set key"
  shows "strstr (cstr (take (MAX_KEY_SIZE - 1) (old @ key @ [LF]))) key \<noteq> None"
proof -
  have "take (MAX_KEY_SIZE - 1) (old @ key @ [LF])
          = old @ key @ take (MAX_KEY_SIZE - 1 - length old - length key) [LF]"
    using assms(1) by simp
  moreover have "NUL \<notin> set (old @ key @ take (MAX_KEY_SIZE - 1 - length old - length key) [LF])"
    using assms(2,3) by (auto dest: in_set_takeD)
  ultimately have "cstr (take (MAX_KEY_SIZE - 1) (old @ key @ [LF]))
          = old @ key @ take (MAX_KEY_SIZE - 1 - length old - length key) [LF]"
    using cstr_id by metis
  then show ?thesis using strstr_found by metis
qed

lemma second_run:
  fixes E :: "'h env" and content :: "'h \<Rightarrow> string"
  assumes listing: "\<And>h. run_popen E (check_cmd opts) h = (Some (content h), h)"
    and mkdir: "\<And>h. content (snd (run_system E (mkdir_cmd opts) h)) = content h"
    and "\<not> force opts"
    and "strstr (cstr (take (MAX_KEY_SIZE - 1) (content (outside s)))) key \<noteq> None"
  shows "copy_key_to_server E opts key s =
           (0, s\<lparr>outside := snd (run_system E (mkdir_cmd opts) (outside s)),
                 printed := printed s @ [(Stdout, ''Creating ~/.ssh directory...'' @ [LF]),
                                         (Stdout, ''Key already exists on server'' @ [LF])],
                 cmds := cmds s @ [mkdir_cmd opts, check_cmd opts]\<rparr>)"
  using assms(3,4) listing [of "snd (run_system E (mkdir_cmd opts) (outside s))"] mkdir [of "outside s"]
  by (intro copy_key_to_server_listed) simp_all

lemma first_run:
  fixes E :: "'h env" and content :: "'h \<Rightarrow> string"
  assumes listing: "\<And>h. run_popen E (check_cmd opts) h = (Some (content h), h)"
    and mkdir: "\<And>h. content (snd (run_system E (mkdir_cmd opts) h)) = content h"
    and "\<not> force opts"
    and "strstr (cstr (take (MAX_KEY_SIZE - 1) (content (outside s)))) key = None"
  shows "copy_key_to_server E opts key s =
           (fst (run_system E (append_cmd opts key) (snd (run_system E (mkdir_cmd opts) (outside s)))),
            s\<lparr>outside := snd (run_system E (append_cmd opts key)
                               (snd (run_system E (mkdir_cmd opts) (outside s)))),
              printed := printed s @ [(Stdout, ''Creating ~/.ssh directory...'' @ [LF]),
                                      (Stdout, ''Adding key to authorized_keys...'' @ [LF])],
              cmds := cmds s @ [mkdir_cmd opts, check_cmd opts, append_cmd opts key]\<rparr>)"
  using assms(3,4) listing [of "snd (run_system E (mkdir_cmd opts) (outside s))"] mkdir [of "outside s"]
  by (intro copy_key_to_server_not_listed) simp_all


text \<open>
  Claim C2, as the code has it. Take a remote host on which the listing command prints
  the authorized-keys file and leaves it alone, the directory setup leaves it alone, and
  the adding command succeeds and appends the key as a line; let the file hold no NUL
  byte and, with the key appended, fit the 65535 bytes that the program reads of it.
  Then with the force option off the second of two runs finds the key in what it
  fetches, runs the directory setup and the listing and no adding command, reports that
  the key already exists, returns 0 and leaves the file as the first run left it, so
  that the key has been appended at most once. With the force option on no listing is
  run, each run issues the adding command, and the file ends with the key's line twice.
\<close>

theorem deploy_twice:
  fixes E :: "'h env" and content :: "'h \<Rightarrow> string"
  assumes listing: "\<And>h. run_popen E (check_cmd opts) h = (Some (content h), h)"
    and mkdir: "\<And>h. content (snd (run_system E (mkdir_cmd opts) h)) = content h"
    and adding: "\<And>h. fst (run_system E (append_cmd opts key) h) = 0 \<and>
                     content (snd (run_system E (append_cmd opts key) h)) = content h @ key @ [LF]"
    and fits: "length (content (outside s)) + length key < MAX_KEY_SIZE"
    and clean: "NUL \<notin> set (content (outside s))" "NUL \<notin> set key"
  shows "(\<not> force opts \<longrightarrow>
            fst (copy_key_to_server E opts key (snd (copy_key_to_server E opts key s))) = 0 \<and>
            cmds (snd (copy_key_to_server E opts key (snd (copy_key_to_server E opts key s))))
              = cmds (snd (copy_key_to_server E opts key s)) @ [mkdir_cmd opts, check_cmd opts] \<and>
            printed (snd (copy_key_to_server E opts key (snd (copy_key_to_server E opts key s))))
              = printed (snd (copy_key_to_server E opts key s))
                @ [(Stdout, ''Creating ~/.ssh directory...'' @ [LF]),
                   (Stdout, ''Key already exists on server'' @ [LF])] \<and>
            content (outside (snd (copy_key_to_server E opts key
                                     (snd (copy_key_to_server E opts key s)))))
              = content (outside (snd (copy_key_to_server E opts key s))) \<and>
            (content (outside (snd (copy_key_to_server E opts key s))) = content (outside s) \<or>
             content (outside (snd (copy_key_to_server E opts key s)))
               = content (outside s) @ key @ [LF])) \<and>
         (force opts \<longrightarrow>
            cmds (snd (copy_key_to_server E opts key (snd (copy_key_to_server E opts key s))))
              = cmds s @ [mkdir_cmd opts, append_cmd opts key, mkdir_cmd opts, append_cmd opts key] \<and>
            content (outside (snd (copy_key_to_server E opts key
                                     (snd (copy_key_to_server E opts key s)))))
              = content (outside s) @ key @ [LF] @ key @ [LF])"
proof (intro conjI impI)
  assume f: "force opts"
  show "cmds (snd (copy_key_to_server E opts key (snd (copy_key_to_server E opts key s))))
          = cmds s @ [mkdir_cmd opts, append_cmd opts key, mkdir_cmd opts, append_cmd opts key]"
    by (simp add: copy_key_to_server_forced [OF f])
  show "content (outside (snd (copy_key_to_server E opts key
                                 (snd (copy_key_to_server E opts key s)))))
          = content (outside s) @ key @ [LF] @ key @ [LF]"
    by (simp add: copy_key_to_server_forced [OF f] adding mkdir)
next
  assume nf: "\<not> force opts"
  let ?s1 = "snd (copy_key_to_server E opts key s)"
  have once: "strstr (cstr (take (MAX_KEY_SIZE - 1) (content (outside ?s1)))) key \<noteq> None \<and>
              (content (outside ?s1) = content (outside s) \<or>
               content (outside ?s1) = content (outside s) @ key @ [LF])"
  proof (cases "strstr (cstr (take (MAX_KEY_SIZE - 1) (content (outside s)))) key = None")
    case True
    have "content (outside ?s1) = content (outside s) @ key @ [LF]"
      by (simp add: first_run [of E opts content, OF listing mkdir nf True] adding mkdir)
    then show ?thesis
      using listed_after_adding [OF fits clean] by simp
  next
    case False
    have "content (outside ?s1) = content (outside s)"
      by (simp add: second_run [of E opts content, OF listing mkdir nf False] mkdir)
    then show ?thesis using False by simp
  qed
  then have listed: "strstr (cstr (take (MAX_KEY_SIZE - 1) (content (outside ?s1)))) key \<noteq> None"
    by blast
  note again = second_run [of E opts content ?s1 key, OF listing mkdir nf listed]
  show "fst (copy_key_to_server E opts key ?s1) = 0"
    by (simp add: again)
  show "cmds (snd (copy_key_to_server E opts key ?s1)) = cmds ?s1 @ [mkdir_cmd opts, check_cmd opts]"
    by (simp add: again)
  show "printed (snd (copy_key_to_server E opts key ?s1))
          = printed ?s1 @ [(Stdout, ''Creating ~/.ssh directory...'' @ [LF]),
                           (Stdout, ''Key already exists on server'' @ [LF])]"
    by (simp add: again)
  show "content (outside (snd (copy_key_to_server E opts key ?s1))) = content (outside ?s1)"
    by (simp add: again mkdir)
  show "content (outside ?s1) = content (outside s) \<or>
        content (outside ?s1) = content (outside s) @ key @ [LF]"
    using once by blast
qed


lemma cmd_force [simp]:
  "mkdir_cmd (opts\<lparr>force := f\<rparr>) = mkdir_cmd opts"
  "check_cmd (opts\<lparr>force := f\<rparr>) = check_cmd opts"
  "append_cmd (opts\<lparr>force := f\<rparr>) key = append_cmd opts key"
  by (simp_all add: mkdir_cmd_def check_cmd_def append_cmd_def config_str_def port_str_def)

lemma bob_cmds:
  "mkdir_cmd bob_options = ''ssh bob@box '' @ [DQ] @ ''mkdir -p ~/.ssh && chmod 700 ~/.ssh'' @ [DQ]"
  "append_cmd bob_options bob_key =
     ''ssh bob@box '' @ [DQ] @ ''echo '' @ [SQ] @ bob_key @ [SQ]
     @ '' >> ~/.ssh/authorized_keys && chmod 600 ~/.ssh/authorized_keys'' @ [DQ]"
  by (simp_all add: mkdir_cmd_def append_cmd_def bob_options_def zeroed_options_def
      config_str_def port_str_def snprintf_def MAX_CMD_LEN_def escape_key_def MAX_KEY_SIZE_def
      bob_key_def)

lemma bob_cmds_differ: "mkdir_cmd bob_options \<noteq> append_cmd bob_options bob_key"
  by (simp add: bob_cmds)

lemma box_env_listing: "run_popen box_env (check_cmd bob_options) h = (Some h, h)"
  by (simp add: box_env_def remote_env_def)

lemma box_env_mkdir: "snd (run_system box_env (mkdir_cmd bob_options) h) = h"
  using bob_cmds_differ by (simp add: box_env_def remote_env_def)

lemma box_env_adding:
  "run_system box_env (append_cmd bob_options bob_key) h = (0, h @ bob_key @ [LF])"
  by (simp add: box_env_def remote_env_def)

lemma bob_key_clean: "NUL \<notin> set bob_key" "length bob_key = 39"
  by (simp_all add: bob_key_def)

lemma bob_not_forced: "\<not> force bob_options"
  by (simp add: bob_options_def zeroed_options_def)

theorem deploy_twice_witness:
  "fst (copy_key_to_server box_env bob_options bob_key
          (snd (copy_key_to_server box_env bob_options bob_key (start [])))) = 0 \<and>
   outside (snd (copy_key_to_server box_env bob_options bob_key
                   (snd (copy_key_to_server box_env bob_options bob_key (start [])))))
     = bob_key @ [LF] \<and>
   outside (snd (copy_key_to_server box_env (bob_options\<lparr>force := True\<rparr>) bob_key
                   (snd (copy_key_to_server box_env (bob_options\<lparr>force := True\<rparr>) bob_key
                           (start [])))))
     = bob_key @ [LF] @ bob_key @ [LF]"
proof -
  have absent: "strstr (cstr (take (MAX_KEY_SIZE - 1) (outside (start [])))) bob_key = None"
    by (simp add: start_def cstr_def bob_key_def)
  have one: "outside (snd (copy_key_to_server box_env bob_options bob_key (start [])))
               = bob_key @ [LF]"
    using first_run [of box_env bob_options "\<lambda>h. h" "start []" bob_key]
      box_env_listing box_env_mkdir bob_not_forced absent
    by (simp add: box_env_adding start_def)
  have unforced:
    "fst (copy_key_to_server box_env bob_options bob_key
            (snd (copy_key_to_server box_env bob_options bob_key (start [])))) = 0 \<and>
     outside (snd (copy_key_to_server box_env bob_options bob_key
                     (snd (copy_key_to_server box_env bob_options bob_key (start [])))))
       = outside (snd (copy_key_to_server box_env bob_options bob_key (start [])))"
    using deploy_twice [of box_env bob_options "\<lambda>h. h" bob_key "start []"]
      box_env_listing box_env_mkdir bob_not_forced
    by (simp add: box_env_adding bob_key_clean start_def MAX_KEY_SIZE_def)
  have forced:
    "outside (snd (copy_key_to_server box_env (bob_options\<lparr>force := True\<rparr>) bob_key
                     (snd (copy_key_to_server box_env (bob_options\<lparr>force := True\<rparr>) bob_key
                             (start [])))))
       = bob_key @ [LF] @ bob_key @ [LF]"
    using deploy_twice [of box_env "bob_options\<lparr>force := True\<rparr>" "\<lambda>h. h" bob_key "start []"]
      box_env_listing box_env_mkdir
    by (simp add: box_env_adding bob_key_clean start_def MAX_KEY_SIZE_def)
  show ?thesis using one unforced forced by simp
qed

text \<open>
  For every remote state the claim fails: the program reads at most 65535 bytes of the
  remote file. Where the file is that long already, the line that the first run appends
  lies beyond what the second run reads, and the second run appends the key again.
\<close>

theorem deploy_twice_long_file_counterexample:
  "outside (snd (copy_key_to_server box_env bob_options bob_key
                   (snd (copy_key_to_server box_env bob_options bob_key
                           (start (replicate 65535 (CHR ''#'')))))))
     = replicate 65535 (CHR ''#'') @ bob_key @ [LF] @ bob_key @ [LF]"
proof -
  let ?old = "replicate 65535 (CHR ''#'')"
  have unseen: "strstr (cstr (take (MAX_KEY_SIZE - 1) (?old @ rest))) bob_key = None" for rest
  proof -
    have "take (MAX_KEY_SIZE - 1) (?old @ rest) = ?old"
      by (simp add: MAX_KEY_SIZE_def)
    moreover have "cstr ?old = ?old"
      by (rule cstr_id) simp
    moreover have "strstr ?old bob_key = None"
      unfolding bob_key_def by (rule strstr_absent_char) simp
    ultimately show ?thesis by simp
  qed
  have run: "outside (snd (copy_key_to_server box_env bob_options bob_key s))
               = outside s @ bob_key @ [LF]"
    if "strstr (cstr (take (MAX_KEY_SIZE - 1) (outside s))) bob_key = None" for s
    using first_run [of box_env bob_options "\<lambda>h. h" s bob_key]
      box_env_listing box_env_mkdir bob_not_forced that
    by (simp add: box_env_adding)
  have one: "outside (snd (copy_key_to_server box_env bob_options bob_key (start ?old)))
               = ?old @ bob_key @ [LF]"
    using run [of "start ?old"] unseen [of "[]"] by (simp add: start_def)
  show ?thesis
    using run [of "snd (copy_key_to_server box_env bob_options bob_key (start ?old))"]
      unseen [of "bob_key @ [LF]"]
    by (simp add: one)
qed

end
